theory Spec2Isabelle
  imports Main "HOL-Library.Word" "HOL-Library.Sublist"
begin

unbundle bit_operations_syntax

section \<open>Values of the Sleeper API responses\<close>

text \<open>
  \<^verbatim>\<open>response.json()\<close> yields Python values built from JSON: \<^verbatim>\<open>None\<close>, booleans,
  unbounded integers, floats, strings, lists and dicts with string keys. A float is
  kept as the 64 bits of its IEEE 754 double; the only operation the program applies
  to it is the comparison with \<^verbatim>\<open>0\<close>. A dict is an association list in
  iteration (insertion) order; a parsed dict has pairwise distinct keys.
\<close>

datatype json =
    JNull
  | JBool bool
  | JInt int
  | JFloat "64 word"
  | JStr string
  | JArr "json list"
  | JObj "(string \<times> json) list"

type_synonym pydict = "(string \<times> json) list"

text \<open>
  \<^verbatim>\<open>pd.DataFrame(rows)\<close> is represented by the list of row dicts it is built from,
  in order; \<^verbatim>\<open>len(df)\<close> is the number of rows. pandas stores each column under one
  dtype, so a number can be stored in another form than the record held it in (an
  integer beside a float, or beside a missing value, is stored as a float). That
  conversion is not part of the representation. It keeps the number of rows, their
  order, every string cell and the truth of a comparison with \<^verbatim>\<open>0\<close>, and the
  properties of a frame below are stated on these; the exact values of the records are
  stated on the list that the comprehension builds (\<open>rookies_of\<close>,
  \<open>team_stats_of\<close>).
\<close>

type_synonym dataframe = "pydict list"

datatype error =
    ConnectionError
  | HTTPError int
  | JSONDecodeError
  | AttributeError
  | TypeError
  | OSError

definition bind_err :: "error + 'a \<Rightarrow> ('a \<Rightarrow> error + 'b) \<Rightarrow> error + 'b" where
  "bind_err m f = (case m of Inl e \<Rightarrow> Inl e | Inr x \<Rightarrow> f x)"

subsection \<open>The Python operations the two functions use\<close>

text \<open>\<^verbatim>\<open>d.get(k)\<close> on a dict: the value stored under \<^verbatim>\<open>k\<close>, \<^verbatim>\<open>None\<close> when absent.\<close>

definition dict_get :: "pydict \<Rightarrow> string \<Rightarrow> json" where
  "dict_get d k = (case map_of d k of None \<Rightarrow> JNull | Some v \<Rightarrow> v)"

text \<open>
  \<^verbatim>\<open>x.get(k)\<close> on an arbitrary JSON value: only a dict has the attribute
  \<^verbatim>\<open>get\<close>; every other value raises \<^verbatim>\<open>AttributeError\<close>.
\<close>

fun get :: "json \<Rightarrow> string \<Rightarrow> error + json" where
  "get (JObj d) k = Inr (dict_get d k)"
| "get _ k = Inl AttributeError"

text \<open>\<^verbatim>\<open>data.items()\<close>: likewise only defined on a dict.\<close>

fun items :: "json \<Rightarrow> error + (string \<times> json) list" where
  "items (JObj d) = Inr d"
| "items _ = Inl AttributeError"

text \<open>\<^verbatim>\<open>isinstance(stats, dict)\<close>.\<close>

fun isinstance_dict :: "json \<Rightarrow> bool" where
  "isinstance_dict (JObj d) = True"
| "isinstance_dict _ = False"

text \<open>
  \<^verbatim>\<open>v == 0\<close> with the integer literal \<^verbatim>\<open>0\<close>: true for the integer zero, for
  \<^verbatim>\<open>False\<close> (a bool is an int in Python) and for a float zero of either sign
  (\<^verbatim>\<open>0.0\<close> is all bits clear, \<^verbatim>\<open>-0.0\<close> is the sign bit alone); false for every
  other value.
\<close>

fun eq_zero :: "json \<Rightarrow> bool" where
  "eq_zero (JInt i) = (i = 0)"
| "eq_zero (JBool b) = (\<not> b)"
| "eq_zero (JFloat w) = (w = 0 \<or> w = 0x8000000000000000)"
| "eq_zero _ = False"

definition valid_positions :: "string set" where
  "valid_positions = {''QB'', ''RB'', ''WR'', ''TE''}"

text \<open>
  \<^verbatim>\<open>v in valid_positions\<close> for a set of strings: the value is hashed first, so a
  list or a dict raises \<^verbatim>\<open>TypeError\<close> (unhashable); a string is a member iff
  it is one of the elements; no other value equals a string.
\<close>

fun in_valid_positions :: "json \<Rightarrow> error + bool" where
  "in_valid_positions (JStr s) = Inr (s \<in> valid_positions)"
| "in_valid_positions (JArr xs) = Inl TypeError"
| "in_valid_positions (JObj d) = Inl TypeError"
| "in_valid_positions _ = Inr False"

text \<open>\<^verbatim>\<open>str(n)\<close> for an integer, as an f-string placeholder formats it.\<close>

fun digits :: "nat \<Rightarrow> string" where
  "digits n = (if n < 10 then [''0123456789'' ! n]
               else digits (n div 10) @ [''0123456789'' ! (n mod 10)])"

declare digits.simps [simp del]

definition str_int :: "int \<Rightarrow> string" where
  "str_int i = (if i < 0 then ''-'' @ digits (nat (- i)) else digits (nat i))"

text \<open>\<^verbatim>\<open>os.path.join(a, b)\<close> for two components (POSIX).\<close>

definition path_join :: "string \<Rightarrow> string \<Rightarrow> string" where
  "path_join a b =
     (if b \<noteq> [] \<and> hd b = CHR ''/'' then b
      else if a = [] \<or> last a = CHR ''/'' then a @ b
      else a @ ''/'' @ b)"

definition DATA_DIR :: string where
  "DATA_DIR = path_join ''data'' ''raw''"

section \<open>The environment and the observable state\<close>

text \<open>
  The HTTP response the server gives to a GET of a URL (\<open>None\<close>: no response, the
  request itself raises), and whether a path can be written. The body is \<open>None\<close>
  when it is not JSON.
\<close>

record response =
  status_code :: int
  body :: "json option"

record env =
  http :: "string \<Rightarrow> response option"
  writable :: "string \<Rightarrow> bool"

text \<open>
  What a call can change: the requests sent so far, the files on disk (a CSV file is
  kept as the frame written to it) and the lines printed.
\<close>

record world =
  requested :: "string list"
  files :: "string \<rightharpoonup> dataframe"
  stdout :: "string list"

definition requests_get :: "env \<Rightarrow> string \<Rightarrow> world \<Rightarrow> (error + response) \<times> world" where
  "requests_get e url w =
     (case http e url of
        None \<Rightarrow> Inl ConnectionError
      | Some r \<Rightarrow> Inr r,
      w\<lparr>requested := requested w @ [url]\<rparr>)"

text \<open>\<^verbatim>\<open>response.raise_for_status()\<close>: raises for the status codes 400 to 599.\<close>

definition raise_for_status :: "response \<Rightarrow> error + unit" where
  "raise_for_status r =
     (if 400 \<le> status_code r \<and> status_code r < 500 then Inl (HTTPError (status_code r))
      else if 500 \<le> status_code r \<and> status_code r < 600 then Inl (HTTPError (status_code r))
      else Inr ())"

definition response_json :: "response \<Rightarrow> error + json" where
  "response_json r = (case body r of None \<Rightarrow> Inl JSONDecodeError | Some j \<Rightarrow> Inr j)"

definition to_csv :: "env \<Rightarrow> dataframe \<Rightarrow> string \<Rightarrow> world \<Rightarrow> error + world" where
  "to_csv e df path w =
     (if writable e path then Inr (w\<lparr>files := (files w)(path \<mapsto> df)\<rparr>) else Inl OSError)"

definition print :: "string \<Rightarrow> world \<Rightarrow> world" where
  "print line w = w\<lparr>stdout := stdout w @ [line]\<rparr>"

section \<open>get_rookies\<close>

text \<open>
  The condition of the comprehension,
  \<^verbatim>\<open>player.get("years_exp") == 0 and player.get("position") in valid_positions\<close>;
  \<^verbatim>\<open>and\<close> evaluates its right operand only when the left one is true.
\<close>

definition rookie_cond :: "json \<Rightarrow> error + bool" where
  "rookie_cond player =
     bind_err (get player ''years_exp'') (\<lambda>y.
       if eq_zero y
       then bind_err (get player ''position'') in_valid_positions
       else Inr False)"

text \<open>The dict display of the comprehension, its values evaluated left to right.\<close>

definition rookie_record :: "string \<Rightarrow> json \<Rightarrow> error + pydict" where
  "rookie_record pid player =
     bind_err (get player ''full_name'') (\<lambda>full_name.
     bind_err (get player ''position'') (\<lambda>position.
     bind_err (get player ''team'') (\<lambda>team.
     bind_err (get player ''college'') (\<lambda>college.
     bind_err (get player ''years_exp'') (\<lambda>years_exp.
       Inr [(''player_id'', JStr pid),
            (''full_name'', full_name),
            (''position'', position),
            (''team'', team),
            (''college'', college),
            (''years_exp'', years_exp)])))))"

text \<open>
  The list comprehension over \<^verbatim>\<open>data.items()\<close>: for each entry the condition is
  evaluated, then the record when the condition holds; the first exception ends it.
\<close>

fun rookies_of :: "(string \<times> json) list \<Rightarrow> error + pydict list" where
  "rookies_of [] = Inr []"
| "rookies_of ((pid, player) # rest) =
     bind_err (rookie_cond player) (\<lambda>c.
       if c
       then bind_err (rookie_record pid player) (\<lambda>r.
              bind_err (rookies_of rest) (\<lambda>rs. Inr (r # rs)))
       else rookies_of rest)"

definition rookies_url :: string where
  "rookies_url = ''https://api.sleeper.app/v1/players/nfl''"

definition rookies_output_path :: string where
  "rookies_output_path = path_join DATA_DIR ''rookies_{year}.csv''"

definition get_rookies :: "env \<Rightarrow> int \<Rightarrow> world \<Rightarrow> (error + dataframe) \<times> world" where
  "get_rookies e year w =
     (case requests_get e rookies_url w of
        (Inl err, w1) \<Rightarrow> (Inl err, w1)
      | (Inr response, w1) \<Rightarrow>
     (case raise_for_status response of
        Inl err \<Rightarrow> (Inl err, w1)
      | Inr _ \<Rightarrow>
     (case response_json response of
        Inl err \<Rightarrow> (Inl err, w1)
      | Inr data \<Rightarrow>
     (case bind_err (items data) rookies_of of
        Inl err \<Rightarrow> (Inl err, w1)
      | Inr df \<Rightarrow>
     (case to_csv e df rookies_output_path w1 of
        Inl err \<Rightarrow> (Inl err, w1)
      | Inr w2 \<Rightarrow>
          (Inr df,
           print (''Saved '' @ str_int (int (length df))
                  @ '' rookies (QB, RB, WR, TE) to rookies_'' @ str_int year @ ''.csv'') w2))))))"

section \<open>get_team_offensive_stats\<close>

definition team_record :: "string \<Rightarrow> int \<Rightarrow> json \<Rightarrow> error + pydict" where
  "team_record team year stats =
     bind_err (get stats ''offense_rank'') (\<lambda>offense_rank.
     bind_err (get stats ''pass_yds_rank'') (\<lambda>pass_yards_rank.
     bind_err (get stats ''pass_td_rank'') (\<lambda>pass_td_rank.
     bind_err (get stats ''rush_yds_rank'') (\<lambda>rush_yards_rank.
     bind_err (get stats ''rush_td_rank'') (\<lambda>rush_td_rank.
     bind_err (get stats ''rec_yds_rank'') (\<lambda>rec_yards_rank.
     bind_err (get stats ''rec_td_rank'') (\<lambda>rec_td_rank.
     bind_err (get stats ''td'') (\<lambda>team_td.
     bind_err (get stats ''redzone_rank'') (\<lambda>redzone_rank.
     bind_err (get stats ''redzone_pct'') (\<lambda>redzone_pct.
       Inr [(''team'', JStr team),
            (''year'', JInt year),
            (''offense_rank'', offense_rank),
            (''pass_yards_rank'', pass_yards_rank),
            (''pass_td_rank'', pass_td_rank),
            (''rush_yards_rank'', rush_yards_rank),
            (''rush_td_rank'', rush_td_rank),
            (''rec_yards_rank'', rec_yards_rank),
            (''rec_td_rank'', rec_td_rank),
            (''team_td'', team_td),
            (''redzone_rank'', redzone_rank),
            (''redzone_pct'', redzone_pct)]))))))))))"

fun team_stats_of :: "int \<Rightarrow> (string \<times> json) list \<Rightarrow> error + pydict list" where
  "team_stats_of year [] = Inr []"
| "team_stats_of year ((team, stats) # rest) =
     (if isinstance_dict stats
      then bind_err (team_record team year stats) (\<lambda>r.
             bind_err (team_stats_of year rest) (\<lambda>rs. Inr (r # rs)))
      else team_stats_of year rest)"

definition team_stats_url :: "int \<Rightarrow> string" where
  "team_stats_url year = ''https://api.sleeper.app/v1/stats/nfl/regular/'' @ str_int year"

definition team_stats_output_path :: "int \<Rightarrow> string" where
  "team_stats_output_path year =
     path_join DATA_DIR (''sleeper_team_stats_'' @ str_int year @ ''.csv'')"

definition get_team_offensive_stats ::
  "env \<Rightarrow> int \<Rightarrow> world \<Rightarrow> (error + dataframe) \<times> world" where
  "get_team_offensive_stats e year w =
     (case requests_get e (team_stats_url year) w of
        (Inl err, w1) \<Rightarrow> (Inl err, w1)
      | (Inr response, w1) \<Rightarrow>
     (case raise_for_status response of
        Inl err \<Rightarrow> (Inl err, w1)
      | Inr _ \<Rightarrow>
     (case response_json response of
        Inl err \<Rightarrow> (Inl err, w1)
      | Inr data \<Rightarrow>
     (case bind_err (items data) (team_stats_of year) of
        Inl err \<Rightarrow> (Inl err, w1)
      | Inr df \<Rightarrow>
     (case to_csv e df (team_stats_output_path year) w1 of
        Inl err \<Rightarrow> (Inl err, w1)
      | Inr w2 \<Rightarrow>
          (Inr df, print (''Saved team offensive stats for '' @ str_int year) w2))))))"

section \<open>Example responses\<close>

definition ex_players :: "(string \<times> json) list" where
  "ex_players =
     [(''1001'', JObj [(''full_name'', JStr ''John Smith''), (''position'', JStr ''WR''),
                       (''team'', JStr ''LAR''), (''college'', JStr ''Alabama''),
                       (''years_exp'', JInt 0)]),
      (''1002'', JObj [(''full_name'', JStr ''Old Vet''), (''position'', JStr ''QB''),
                       (''years_exp'', JInt 7)]),
      (''1003'', JObj [(''position'', JStr ''RB''), (''years_exp'', JInt 0)]),
      (''1004'', JObj [(''position'', JStr ''K''), (''years_exp'', JInt 0)]),
      (''1005'', JObj [(''full_name'', JStr ''No Exp''), (''position'', JStr ''TE'')])]"

definition ex_teams :: "(string \<times> json) list" where
  "ex_teams =
     [(''KC'', JObj [(''offense_rank'', JInt 2)]),
      (''BUF'', JStr ''bye'')]"

definition ex_env :: env where
  "ex_env =
     \<lparr>http = (\<lambda>url.
         if url = rookies_url then Some \<lparr>status_code = 200, body = Some (JObj ex_players)\<rparr>
         else if url = team_stats_url 2024 then Some \<lparr>status_code = 200, body = Some (JObj ex_teams)\<rparr>
         else None),
      writable = (\<lambda>path. True)\<rparr>"

definition ex_world :: world where
  "ex_world = \<lparr>requested = [], files = Map.empty, stdout = []\<rparr>"

definition ex_rookies :: dataframe where
  "ex_rookies =
     [[(''player_id'', JStr ''1001''), (''full_name'', JStr ''John Smith''),
       (''position'', JStr ''WR''), (''team'', JStr ''LAR''),
       (''college'', JStr ''Alabama''), (''years_exp'', JInt 0)],
      [(''player_id'', JStr ''1003''), (''full_name'', JNull),
       (''position'', JStr ''RB''), (''team'', JNull),
       (''college'', JNull), (''years_exp'', JInt 0)]]"

definition const_env :: "int \<Rightarrow> json option \<Rightarrow> env" where
  "const_env status b =
     \<lparr>http = (\<lambda>url. Some \<lparr>status_code = status, body = b\<rparr>),
      writable = (\<lambda>path. True)\<rparr>"

definition ex_old_world :: world where
  "ex_old_world =
     \<lparr>requested = [],
      files = [rookies_output_path \<mapsto> ex_rookies, team_stats_output_path 2024 \<mapsto> []],
      stdout = []\<rparr>"

definition ex_all_rookies :: "(string \<times> json) list" where
  "ex_all_rookies =
     [(''2001'', JObj [(''position'', JStr ''QB''), (''years_exp'', JInt 0)]),
      (''2002'', JObj [(''years_exp'', JInt 0), (''college'', JStr ''Clemson''),
                       (''position'', JStr ''TE'')]),
      (''2003'', JObj [(''full_name'', JStr ''Mike Jones''), (''position'', JStr ''WR''),
                       (''team'', JNull), (''years_exp'', JInt 0)])]"

definition ex_false_exp :: "(string \<times> json) list" where
  "ex_false_exp =
     [(''3001'', JObj [(''position'', JStr ''QB''), (''years_exp'', JBool False)])]"

definition ex_teams_year :: "(string \<times> json) list" where
  "ex_teams_year =
     [(''KC'', JObj [(''year'', JInt 1999), (''offense_rank'', JInt 2)]),
      (''BUF'', JObj [(''td'', JInt 51)])]"


definition ex_missing :: "(string \<times> json) list" where
  "ex_missing =
     [(''4001'', JObj [(''position'', JStr ''WR'')]),
      (''4002'', JObj [(''years_exp'', JNull), (''position'', JStr ''QB'')]),
      (''4003'', JObj [(''years_exp'', JInt 0)]),
      (''4004'', JObj [(''years_exp'', JInt 0), (''position'', JStr ''TE'')])]"

definition ex_missing_rows :: dataframe where
  "ex_missing_rows =
     [[(''player_id'', JStr ''4004''), (''full_name'', JNull),
       (''position'', JStr ''TE''), (''team'', JNull),
       (''college'', JNull), (''years_exp'', JInt 0)]]"

section \<open>Properties\<close>

lemma bind_err_Inl [simp]: "bind_err (Inl e) f = Inl e"
  by (simp add: bind_err_def)

lemma bind_err_Inr [simp]: "bind_err (Inr x) f = f x"
  by (simp add: bind_err_def)

lemma bind_err_eq_Inr: "bind_err m f = Inr y \<longleftrightarrow> (\<exists>x. m = Inr x \<and> f x = Inr y)"
  by (cases m) simp_all

lemma in_valid_positions_True:
  "in_valid_positions v = Inr True \<longleftrightarrow> (\<exists>s. v = JStr s \<and> s \<in> valid_positions)"
  by (cases v) auto

lemma rookie_cond_True:
  "rookie_cond p = Inr True \<longleftrightarrow>
     (\<exists>d. p = JObj d \<and> eq_zero (dict_get d ''years_exp'')
          \<and> (\<exists>s. dict_get d ''position'' = JStr s \<and> s \<in> valid_positions))"
  by (cases p) (auto simp: rookie_cond_def in_valid_positions_True)

lemma rookie_record_JObj:
  "rookie_record pid (JObj d) =
     Inr [(''player_id'', JStr pid),
          (''full_name'', dict_get d ''full_name''),
          (''position'', dict_get d ''position''),
          (''team'', dict_get d ''team''),
          (''college'', dict_get d ''college''),
          (''years_exp'', dict_get d ''years_exp'')]"
  by (simp add: rookie_record_def)

lemma rookies_of_Inr:
  "rookies_of kvs = Inr rs \<Longrightarrow>
     map Inr rs = map (\<lambda>(pid, p). rookie_record pid p)
                      (filter (\<lambda>(pid, p). rookie_cond p = Inr True) kvs)"
proof (induction kvs arbitrary: rs)
  case Nil
  then show ?case by simp
next
  case (Cons kv kvs)
  obtain pid p where kv: "kv = (pid, p)" by (cases kv)
  from Cons.prems obtain c where c: "rookie_cond p = Inr c"
    and rest: "(if c then bind_err (rookie_record pid p) (\<lambda>r.
              bind_err (rookies_of kvs) (\<lambda>rs. Inr (r # rs)))
       else rookies_of kvs) = Inr rs"
    by (auto simp: kv bind_err_eq_Inr)
  show ?case
  proof (cases c)
    case True
    with rest obtain r rs' where "rookie_record pid p = Inr r" "rookies_of kvs = Inr rs'" "rs = r # rs'"
      by (auto simp: bind_err_eq_Inr)
    with Cons.IH [of rs'] c True show ?thesis by (simp add: kv)
  next
    case False
    with rest Cons.IH [of rs] c show ?thesis by (simp add: kv)
  qed
qed

lemma items_eq_Inr: "items j = Inr d \<longleftrightarrow> j = JObj d"
  by (cases j) auto

lemma raise_for_status_eq_Inr:
  "raise_for_status r = Inr u \<longleftrightarrow> \<not> (400 \<le> status_code r \<and> status_code r < 600)"
  by (auto simp: raise_for_status_def)

lemma get_rookies_Inr:
  assumes "get_rookies e year w = (Inr df, w')"
  shows "\<exists>r kvs. http e rookies_url = Some r
    \<and> \<not> (400 \<le> status_code r \<and> status_code r < 600)
    \<and> body r = Some (JObj kvs)
    \<and> rookies_of kvs = Inr df
    \<and> writable e rookies_output_path
    \<and> w' = w\<lparr>requested := requested w @ [rookies_url],
               files := (files w)(rookies_output_path \<mapsto> df),
               stdout := stdout w @ [''Saved '' @ str_int (int (length df))
                  @ '' rookies (QB, RB, WR, TE) to rookies_'' @ str_int year @ ''.csv'']\<rparr>"
  using assms
  by (auto simp: get_rookies_def requests_get_def raise_for_status_eq_Inr response_json_def
      to_csv_def print_def bind_err_eq_Inr items_eq_Inr
      split: option.splits sum.splits if_splits)

lemma get_rookies_ok:
  assumes "http e rookies_url = Some r"
    and "\<not> (400 \<le> status_code r \<and> status_code r < 600)"
    and "body r = Some (JObj kvs)"
    and "rookies_of kvs = Inr df"
    and "writable e rookies_output_path"
  shows "get_rookies e year w =
     (Inr df, w\<lparr>requested := requested w @ [rookies_url],
               files := (files w)(rookies_output_path \<mapsto> df),
               stdout := stdout w @ [''Saved '' @ str_int (int (length df))
                  @ '' rookies (QB, RB, WR, TE) to rookies_'' @ str_int year @ ''.csv'']\<rparr>)"
  using assms
  by (auto simp: get_rookies_def requests_get_def raise_for_status_def response_json_def
      to_csv_def print_def)


lemma str_int_2024: "str_int 2024 = ''2024''"
  by (simp add: str_int_def digits.simps)

lemma str_int_2: "str_int (int (length ex_rookies)) = ''2''"
  by (simp add: str_int_def digits.simps ex_rookies_def)

lemma rookies_of_ex_players: "rookies_of ex_players = Inr ex_rookies"
  by (simp add: ex_players_def ex_rookies_def rookie_cond_def rookie_record_def dict_get_def
      valid_positions_def)

lemma rookies_output_path_eq: "rookies_output_path = ''data/raw/rookies_{year}.csv''"
  by (simp add: rookies_output_path_def DATA_DIR_def path_join_def)

lemma team_stats_output_path_2024:
  "team_stats_output_path 2024 = ''data/raw/sleeper_team_stats_2024.csv''"
  by (simp add: team_stats_output_path_def DATA_DIR_def path_join_def str_int_2024)

lemma get_rookies_ex:
  "get_rookies ex_env 2024 ex_world =
     (Inr ex_rookies,
      \<lparr>requested = [rookies_url],
       files = [rookies_output_path \<mapsto> ex_rookies],
       stdout = [''Saved 2 rookies (QB, RB, WR, TE) to rookies_2024.csv'']\<rparr>)"
  by (simp add: get_rookies_ok [where r = "\<lparr>status_code = 200, body = Some (JObj ex_players)\<rparr>" and kvs = ex_players]
      rookies_of_ex_players ex_env_def ex_world_def str_int_2024 str_int_2)


lemma rookies_of_member:
  assumes "rookies_of kvs = Inr rs" and "r \<in> set rs"
  shows "\<exists>pid d. (pid, JObj d) \<in> set kvs \<and> rookie_cond (JObj d) = Inr True
           \<and> rookie_record pid (JObj d) = Inr r"
proof -
  from assms(2) have "Inr r \<in> set (map Inr rs :: (error + pydict) list)" by simp
  also note rookies_of_Inr [OF assms(1)]
  finally obtain pid p where "(pid, p) \<in> set kvs" "rookie_cond p = Inr True"
    "rookie_record pid p = Inr r"
    by auto
  moreover from this(2) obtain d where "p = JObj d" by (auto simp: rookie_cond_True)
  ultimately show ?thesis by blast
qed

lemma isinstance_dict_iff: "isinstance_dict s \<longleftrightarrow> (\<exists>d. s = JObj d)"
  by (cases s) auto

lemma team_record_JObj:
  "team_record team year (JObj d) =
     Inr [(''team'', JStr team),
          (''year'', JInt year),
          (''offense_rank'', dict_get d ''offense_rank''),
          (''pass_yards_rank'', dict_get d ''pass_yds_rank''),
          (''pass_td_rank'', dict_get d ''pass_td_rank''),
          (''rush_yards_rank'', dict_get d ''rush_yds_rank''),
          (''rush_td_rank'', dict_get d ''rush_td_rank''),
          (''rec_yards_rank'', dict_get d ''rec_yds_rank''),
          (''rec_td_rank'', dict_get d ''rec_td_rank''),
          (''team_td'', dict_get d ''td''),
          (''redzone_rank'', dict_get d ''redzone_rank''),
          (''redzone_pct'', dict_get d ''redzone_pct'')]"
  by (simp add: team_record_def)

lemma team_stats_of_total:
  "\<exists>rs. team_stats_of year kvs = Inr rs
      \<and> map Inr rs = map (\<lambda>(team, stats). team_record team year stats)
                         (filter (\<lambda>(team, stats). isinstance_dict stats) kvs)"
proof (induction kvs)
  case Nil
  show ?case by simp
next
  case (Cons kv kvs)
  obtain team stats where kv: "kv = (team, stats)" by (cases kv)
  from Cons.IH obtain rs where rs: "team_stats_of year kvs = Inr rs"
    "map Inr rs = map (\<lambda>(team, stats). team_record team year stats)
                      (filter (\<lambda>(team, stats). isinstance_dict stats) kvs)"
    by blast
  show ?case
  proof (cases "isinstance_dict stats")
    case True
    then obtain d where "stats = JObj d" by (auto simp: isinstance_dict_iff)
    with rs show ?thesis by (simp add: kv team_record_JObj)
  next
    case False
    with rs show ?thesis by (simp add: kv)
  qed
qed

lemma team_stats_of_member:
  assumes "team_stats_of year kvs = Inr rs" and "r \<in> set rs"
  shows "\<exists>team d. (team, JObj d) \<in> set kvs \<and> team_record team year (JObj d) = Inr r"
proof -
  from team_stats_of_total [of year kvs] assms(1)
  have eq: "map Inr rs = map (\<lambda>(team, stats). team_record team year stats)
                      (filter (\<lambda>(team, stats). isinstance_dict stats) kvs)"
    by auto
  from assms(2) have "Inr r \<in> set (map Inr rs :: (error + pydict) list)" by simp
  also note eq
  finally obtain team stats where "(team, stats) \<in> set kvs" "isinstance_dict stats"
    "team_record team year stats = Inr r"
    by auto
  moreover from this(2) obtain d where "stats = JObj d" by (auto simp: isinstance_dict_iff)
  ultimately show ?thesis by blast
qed

lemma get_team_offensive_stats_Inr:
  assumes "get_team_offensive_stats e year w = (Inr df, w')"
  shows "\<exists>r kvs. http e (team_stats_url year) = Some r
    \<and> \<not> (400 \<le> status_code r \<and> status_code r < 600)
    \<and> body r = Some (JObj kvs)
    \<and> team_stats_of year kvs = Inr df
    \<and> writable e (team_stats_output_path year)
    \<and> w' = w\<lparr>requested := requested w @ [team_stats_url year],
               files := (files w)(team_stats_output_path year \<mapsto> df),
               stdout := stdout w @ [''Saved team offensive stats for '' @ str_int year]\<rparr>"
  using assms
  by (auto simp: get_team_offensive_stats_def requests_get_def raise_for_status_eq_Inr
      response_json_def to_csv_def print_def bind_err_eq_Inr items_eq_Inr
      split: option.splits sum.splits if_splits)

lemma get_team_offensive_stats_ok:
  assumes "http e (team_stats_url year) = Some r"
    and "\<not> (400 \<le> status_code r \<and> status_code r < 600)"
    and "body r = Some (JObj kvs)"
    and "team_stats_of year kvs = Inr df"
    and "writable e (team_stats_output_path year)"
  shows "get_team_offensive_stats e year w =
     (Inr df, w\<lparr>requested := requested w @ [team_stats_url year],
               files := (files w)(team_stats_output_path year \<mapsto> df),
               stdout := stdout w @ [''Saved team offensive stats for '' @ str_int year]\<rparr>)"
  using assms
  by (auto simp: get_team_offensive_stats_def requests_get_def raise_for_status_def
      response_json_def to_csv_def print_def)

lemma http_const_env [simp]:
  "http (const_env status b) url = Some \<lparr>status_code = status, body = b\<rparr>"
  "writable (const_env status b) path"
  by (simp_all add: const_env_def)

lemma rookies_of_ids:
  "rookies_of kvs = Inr rs \<Longrightarrow>
     map (\<lambda>r. dict_get r ''player_id'') rs
       = map (\<lambda>(pid, p). JStr pid) (filter (\<lambda>(pid, p). rookie_cond p = Inr True) kvs)"
proof (induction kvs arbitrary: rs)
  case Nil
  then show ?case by simp
next
  case (Cons kv kvs)
  obtain pid p where kv: "kv = (pid, p)" by (cases kv)
  from Cons.prems obtain c where c: "rookie_cond p = Inr c"
    and rest: "(if c then bind_err (rookie_record pid p) (\<lambda>r.
              bind_err (rookies_of kvs) (\<lambda>rs. Inr (r # rs)))
       else rookies_of kvs) = Inr rs"
    by (auto simp: kv bind_err_eq_Inr)
  show ?case
  proof (cases c)
    case True
    with rest obtain r rs' where r: "rookie_record pid p = Inr r"
      and rs': "rookies_of kvs = Inr rs'" "rs = r # rs'"
      by (auto simp: bind_err_eq_Inr)
    from c True obtain d where "p = JObj d" by (auto simp: rookie_cond_True)
    with r have "dict_get r ''player_id'' = JStr pid"
      by (auto simp: rookie_record_JObj dict_get_def)
    with Cons.IH [of rs'] rs' c True show ?thesis by (simp add: kv)
  next
    case False
    with rest Cons.IH [of rs] c show ?thesis by (simp add: kv)
  qed
qed

lemma rookies_of_all_eligible:
  assumes "\<forall>(pid, p) \<in> set kvs. rookie_cond p = Inr True"
  shows "\<exists>rs. rookies_of kvs = Inr rs \<and> length rs = length kvs"
  using assms
proof (induction kvs)
  case Nil
  show ?case by simp
next
  case (Cons kv kvs)
  obtain pid p where kv: "kv = (pid, p)" by (cases kv)
  from Cons.prems have c: "rookie_cond p = Inr True" by (simp add: kv)
  then obtain d where d: "p = JObj d" by (auto simp: rookie_cond_True)
  from Cons obtain rs where "rookies_of kvs = Inr rs" "length rs = length kvs" by auto
  with c show ?case by (simp add: kv) (simp add: d rookie_record_JObj)
qed

lemma team_stats_of_teams:
  "team_stats_of year kvs = Inr rs \<Longrightarrow>
     map (\<lambda>r. dict_get r ''team'') rs
       = map (\<lambda>(team, stats). JStr team) (filter (\<lambda>(team, stats). isinstance_dict stats) kvs)"
proof (induction kvs arbitrary: rs)
  case Nil
  then show ?case by simp
next
  case (Cons kv kvs)
  obtain team stats where kv: "kv = (team, stats)" by (cases kv)
  show ?case
  proof (cases "isinstance_dict stats")
    case True
    then obtain d where d: "stats = JObj d" by (auto simp: isinstance_dict_iff)
    with Cons.prems obtain rs' where rs': "team_stats_of year kvs = Inr rs'"
      and rs: "rs = [(''team'', JStr team),
          (''year'', JInt year),
          (''offense_rank'', dict_get d ''offense_rank''),
          (''pass_yards_rank'', dict_get d ''pass_yds_rank''),
          (''pass_td_rank'', dict_get d ''pass_td_rank''),
          (''rush_yards_rank'', dict_get d ''rush_yds_rank''),
          (''rush_td_rank'', dict_get d ''rush_td_rank''),
          (''rec_yards_rank'', dict_get d ''rec_yds_rank''),
          (''rec_td_rank'', dict_get d ''rec_td_rank''),
          (''team_td'', dict_get d ''td''),
          (''redzone_rank'', dict_get d ''redzone_rank''),
          (''redzone_pct'', dict_get d ''redzone_pct'')] # rs'"
      by (auto simp: kv team_record_JObj bind_err_eq_Inr)
    have "dict_get (hd rs) ''team'' = JStr team" unfolding rs by (simp add: dict_get_def)
    with Cons.IH [OF rs'] True show ?thesis by (simp add: kv rs)
  next
    case False
    with Cons show ?thesis by (simp add: kv)
  qed
qed


lemma distinct_keys_same_value:
  "distinct (map fst kvs) \<Longrightarrow> (k, v) \<in> set kvs \<Longrightarrow> (k, v') \<in> set kvs \<Longrightarrow> v = v'"
  by (meson eq_key_imp_eq_value)

lemma rookie_cond_missing:
  assumes "map_of d ''years_exp'' = None \<or> map_of d ''years_exp'' = Some JNull
         \<or> map_of d ''position'' = None"
  shows "rookie_cond (JObj d) = Inr False"
proof (cases "eq_zero (dict_get d ''years_exp'')")
  case True
  then have "map_of d ''years_exp'' \<noteq> None" "map_of d ''years_exp'' \<noteq> Some JNull"
    by (auto simp: dict_get_def split: option.splits)
  with assms have "dict_get d ''position'' = JNull" by (simp add: dict_get_def)
  with True show ?thesis by (simp add: rookie_cond_def)
next
  case False
  then show ?thesis by (simp add: rookie_cond_def)
qed

lemma eq_zero_cases:
  "eq_zero v \<longleftrightarrow>
     v = JInt 0 \<or> v = JBool False \<or> v = JFloat 0 \<or> v = JFloat 0x8000000000000000"
  by (cases v) auto

text \<open>
  C1. Every record of the frame that \<open>get_rookies\<close> returns, which is also the frame
  stored in the output file, has a \<open>years_exp\<close> that compares equal to 0 (Python's
  \<open>==\<close>) and a \<open>position\<close> that is one of the strings QB, RB, WR, TE, whatever the
  response held.
\<close>

theorem rookies_invariant:
  assumes "get_rookies e year w = (Inr df, w')"
  shows "files w' rookies_output_path = Some df
       \<and> (\<forall>r \<in> set df. eq_zero (dict_get r ''years_exp'')
                       \<and> (\<exists>s \<in> valid_positions. dict_get r ''position'' = JStr s))"
proof -
  from get_rookies_Inr [OF assms] obtain kvs where kvs: "rookies_of kvs = Inr df"
    and w': "files w' = (files w)(rookies_output_path \<mapsto> df)"
    by auto
  have "eq_zero (dict_get r ''years_exp'')
          \<and> (\<exists>s \<in> valid_positions. dict_get r ''position'' = JStr s)"
    if "r \<in> set df" for r
  proof -
    from rookies_of_member [OF kvs that] obtain pid d
      where c: "rookie_cond (JObj d) = Inr True" and r: "rookie_record pid (JObj d) = Inr r"
      by blast
    from r have r': "dict_get r ''years_exp'' = dict_get d ''years_exp''"
      "dict_get r ''position'' = dict_get d ''position''"
      by (auto simp: rookie_record_JObj dict_get_def)
    from c show ?thesis unfolding r' by (auto simp: rookie_cond_True)
  qed
  with w' show ?thesis by simp
qed

theorem rookies_invariant_witness:
  "fst (get_rookies ex_env 2024 ex_world) = Inr ex_rookies
   \<and> length ex_players = 5 \<and> length ex_rookies = 2
   \<and> files (snd (get_rookies ex_env 2024 ex_world)) rookies_output_path = Some ex_rookies
   \<and> list_all (\<lambda>r. eq_zero (dict_get r ''years_exp'')
                    \<and> (\<exists>s \<in> valid_positions. dict_get r ''position'' = JStr s)) ex_rookies"
  using rookies_invariant [OF get_rookies_ex]
  by (simp add: get_rookies_ex list_all_iff ex_players_def ex_rookies_def)

text \<open>
  C4. Whenever \<open>get_rookies\<close> writes its file, the path is the literal
  \<open>data/raw/rookies_{year}.csv\<close>, braces included: the year argument is not
  substituted, so every year writes the same path.
\<close>

theorem rookies_path_not_interpolated:
  assumes "get_rookies e year w = (Inr df, w')"
  shows "rookies_output_path = ''data/raw/rookies_{year}.csv''
       \<and> files w' = (files w)(''data/raw/rookies_{year}.csv'' \<mapsto> df)"
  using get_rookies_Inr [OF assms] by (auto simp: rookies_output_path_eq)

theorem rookies_path_not_interpolated_witness:
  "fst (get_rookies ex_env 2024 ex_world) = Inr ex_rookies
   \<and> files (snd (get_rookies ex_env 2024 ex_world))
       = (files ex_world)(''data/raw/rookies_{year}.csv'' \<mapsto> ex_rookies)
   \<and> fst (get_rookies ex_env 1999 ex_world) = Inr ex_rookies
   \<and> files (snd (get_rookies ex_env 1999 ex_world))
       = (files ex_world)(''data/raw/rookies_{year}.csv'' \<mapsto> ex_rookies)"
proof -
  obtain w1 where h1: "get_rookies ex_env 2024 ex_world = (Inr ex_rookies, w1)"
    by (simp add: get_rookies_ex)
  have "get_rookies ex_env 1999 ex_world
      = (Inr ex_rookies, snd (get_rookies ex_env 1999 ex_world))"
    by (simp add: get_rookies_ok [where r = "\<lparr>status_code = 200, body = Some (JObj ex_players)\<rparr>"
          and kvs = ex_players] rookies_of_ex_players ex_env_def)
  then obtain w2 where h2: "get_rookies ex_env 1999 ex_world = (Inr ex_rookies, w2)" ..
  from rookies_path_not_interpolated [OF h1] rookies_path_not_interpolated [OF h2]
  show ?thesis by (simp add: h1 h2)
qed

text \<open>
  C7. The year argument of \<open>get_rookies\<close> reaches neither the request nor the
  records: for any two years, against the same server and the same disk, the same URL
  is requested, the same result (frame or exception) comes back and the same files
  result.
\<close>

theorem rookies_year_noninterference:
  "fst (get_rookies e y1 w) = fst (get_rookies e y2 w)
   \<and> requested (snd (get_rookies e y1 w)) = requested w @ [rookies_url]
   \<and> requested (snd (get_rookies e y2 w)) = requested w @ [rookies_url]
   \<and> files (snd (get_rookies e y1 w)) = files (snd (get_rookies e y2 w))"
  by (simp add: get_rookies_def requests_get_def to_csv_def print_def
      split: option.splits sum.splits)

theorem rookies_year_noninterference_witness:
  "fst (get_rookies ex_env 2024 ex_world) = fst (get_rookies ex_env 1999 ex_world)
   \<and> fst (get_rookies ex_env 2024 ex_world) = Inr ex_rookies
   \<and> requested (snd (get_rookies ex_env 2024 ex_world)) = [rookies_url]
   \<and> requested (snd (get_rookies ex_env 1999 ex_world)) = [rookies_url]"
proof -
  have "requested ex_world = []" by (simp add: ex_world_def)
  with rookies_year_noninterference [of ex_env 2024 ex_world 1999]
  show ?thesis by (simp add: get_rookies_ex)
qed


text \<open>
  C2. When the server answers with a client or server error status (400 to 599), each
  of the two functions raises the HTTP error right after the request: nothing is
  written or printed, so the files on disk, an earlier output file among them, are
  what they were.
\<close>

theorem http_error_before_any_write:
  assumes "400 \<le> status_code r" and "status_code r < 600"
  shows "(http e rookies_url = Some r \<longrightarrow>
            fst (get_rookies e year w) = Inl (HTTPError (status_code r))
          \<and> files (snd (get_rookies e year w)) = files w
          \<and> stdout (snd (get_rookies e year w)) = stdout w)
       \<and> (http e (team_stats_url year) = Some r \<longrightarrow>
            fst (get_team_offensive_stats e year w) = Inl (HTTPError (status_code r))
          \<and> files (snd (get_team_offensive_stats e year w)) = files w
          \<and> stdout (snd (get_team_offensive_stats e year w)) = stdout w)"
  using assms
  by (auto simp: get_rookies_def get_team_offensive_stats_def requests_get_def
      raise_for_status_def)

theorem http_error_before_any_write_witness:
  "fst (get_rookies (const_env 500 None) 2024 ex_old_world) = Inl (HTTPError 500)
   \<and> files (snd (get_rookies (const_env 500 None) 2024 ex_old_world)) rookies_output_path
       = Some ex_rookies
   \<and> fst (get_team_offensive_stats (const_env 500 None) 2024 ex_old_world)
       = Inl (HTTPError 500)
   \<and> files (snd (get_team_offensive_stats (const_env 500 None) 2024 ex_old_world))
       = files ex_old_world"
proof -
  have "files ex_old_world rookies_output_path = Some ex_rookies"
    by (simp add: ex_old_world_def rookies_output_path_eq team_stats_output_path_2024)
  with http_error_before_any_write
    [of "\<lparr>status_code = 500, body = None\<rparr>" "const_env 500 None" 2024 ex_old_world]
  show ?thesis by simp
qed

text \<open>
  C9. In every record that \<open>get_team_offensive_stats\<close> returns, the field \<open>year\<close>
  is the year argument of the call, also when the stats of the response carry a
  \<open>year\<close> of their own.
\<close>

theorem team_stats_year_is_argument:
  assumes "get_team_offensive_stats e year w = (Inr df, w')"
  shows "\<forall>r \<in> set df. dict_get r ''year'' = JInt year"
proof
  fix r assume "r \<in> set df"
  moreover from get_team_offensive_stats_Inr [OF assms]
  obtain kvs where "team_stats_of year kvs = Inr df" by auto
  ultimately obtain team d where "team_record team year (JObj d) = Inr r"
    using team_stats_of_member by blast
  then show "dict_get r ''year'' = JInt year"
    by (auto simp: team_record_JObj dict_get_def)
qed

lemma team_stats_of_ex_teams_year:
  "team_stats_of 2024 ex_teams_year =
     Inr [[(''team'', JStr ''KC''), (''year'', JInt 2024), (''offense_rank'', JInt 2),
           (''pass_yards_rank'', JNull), (''pass_td_rank'', JNull),
           (''rush_yards_rank'', JNull), (''rush_td_rank'', JNull),
           (''rec_yards_rank'', JNull), (''rec_td_rank'', JNull),
           (''team_td'', JNull), (''redzone_rank'', JNull), (''redzone_pct'', JNull)],
          [(''team'', JStr ''BUF''), (''year'', JInt 2024), (''offense_rank'', JNull),
           (''pass_yards_rank'', JNull), (''pass_td_rank'', JNull),
           (''rush_yards_rank'', JNull), (''rush_td_rank'', JNull),
           (''rec_yards_rank'', JNull), (''rec_td_rank'', JNull),
           (''team_td'', JInt 51), (''redzone_rank'', JNull), (''redzone_pct'', JNull)]]"
  by (simp add: ex_teams_year_def team_record_def dict_get_def)

theorem team_stats_year_is_argument_witness:
  "(\<exists>df. fst (get_team_offensive_stats (const_env 200 (Some (JObj ex_teams_year))) 2024 ex_world)
          = Inr df
        \<and> length df = 2
        \<and> dict_get (df ! 0) ''year'' = JInt 2024
        \<and> dict_get (df ! 1) ''year'' = JInt 2024)
   \<and> get (snd (ex_teams_year ! 0)) ''year'' = Inr (JInt 1999)"
proof -
  let ?e = "const_env 200 (Some (JObj ex_teams_year))"
  obtain df w' where h: "get_team_offensive_stats ?e 2024 ex_world = (Inr df, w')"
    and df: "team_stats_of 2024 ex_teams_year = Inr df"
    using get_team_offensive_stats_ok [of ?e 2024 _ ex_teams_year _ ex_world]
      team_stats_of_ex_teams_year
    by simp
  from df have len: "length df = 2" by (auto simp: team_stats_of_ex_teams_year)
  with team_stats_year_is_argument [OF h] have "dict_get (df ! 0) ''year'' = JInt 2024"
    "dict_get (df ! 1) ''year'' = JInt 2024"
    by simp_all
  with h len show ?thesis by (simp add: ex_teams_year_def dict_get_def)
qed


text \<open>
  C3. For every team-stats response that is a mapping, \<open>get_team_offensive_stats\<close>
  raises nothing; its comprehension builds the record of each entry whose value is
  itself a mapping and of no other entry, and the frame returned has one row per such
  entry: an entry \<open>(team, stats)\<close> has a row with its team iff \<open>stats\<close> is a
  mapping. For the response
  \<open>{"KC": {"offense_rank": 2}, "BUF": "bye"}\<close> the result is the single record of KC
  with \<open>offense_rank = 2\<close>, the year of the call, and null in every field read from
  the stats.
\<close>

theorem team_stats_mapping_entries_only:
  assumes "http e (team_stats_url year) = Some r"
    and "\<not> (400 \<le> status_code r \<and> status_code r < 600)"
    and "body r = Some (JObj kvs)"
    and "distinct (map fst kvs)"
    and "writable e (team_stats_output_path year)"
  shows "\<exists>rows df. team_stats_of year kvs = Inr rows
      \<and> map Inr rows = map (\<lambda>(team, stats). team_record team year stats)
                           (filter (\<lambda>(team, stats). isinstance_dict stats) kvs)
      \<and> fst (get_team_offensive_stats e year w) = Inr df
      \<and> map (\<lambda>rec. dict_get rec ''team'') df
            = map (\<lambda>(team, stats). JStr team)
                  (filter (\<lambda>(team, stats). isinstance_dict stats) kvs)
      \<and> (\<forall>(team, stats) \<in> set kvs.
            (\<exists>rec \<in> set df. dict_get rec ''team'' = JStr team) \<longleftrightarrow> isinstance_dict stats)
      \<and> (kvs = [(''KC'', JObj [(''offense_rank'', JInt 2)]), (''BUF'', JStr ''bye'')] \<longrightarrow>
           df = [[(''team'', JStr ''KC''), (''year'', JInt year), (''offense_rank'', JInt 2),
                  (''pass_yards_rank'', JNull), (''pass_td_rank'', JNull),
                  (''rush_yards_rank'', JNull), (''rush_td_rank'', JNull),
                  (''rec_yards_rank'', JNull), (''rec_td_rank'', JNull),
                  (''team_td'', JNull), (''redzone_rank'', JNull), (''redzone_pct'', JNull)]])"
proof -
  let ?keep = "filter (\<lambda>(team, stats). isinstance_dict stats) kvs"
  from team_stats_of_total [of year kvs] obtain df where df: "team_stats_of year kvs = Inr df"
    and recs: "map Inr df = map (\<lambda>(team, stats). team_record team year stats) ?keep"
    by blast
  from get_team_offensive_stats_ok [OF assms(1,2,3) df assms(5)]
  have res: "fst (get_team_offensive_stats e year w) = Inr df" by simp
  have teams: "(\<lambda>rec. dict_get rec ''team'') ` set df = (\<lambda>(team, stats). JStr team) ` set ?keep"
    using team_stats_of_teams [OF df, THEN arg_cong, of set] by (simp only: set_map)
  have iff: "(\<exists>rec \<in> set df. dict_get rec ''team'' = JStr team) \<longleftrightarrow> isinstance_dict stats"
    if mem: "(team, stats) \<in> set kvs" for team stats
  proof
    assume "\<exists>rec \<in> set df. dict_get rec ''team'' = JStr team"
    then have "JStr team \<in> (\<lambda>rec. dict_get rec ''team'') ` set df" by force
    with teams obtain stats' where other: "(team, stats') \<in> set kvs" "isinstance_dict stats'"
      by auto
    from distinct_keys_same_value [OF assms(4) mem other(1)] other(2)
    show "isinstance_dict stats" by simp
  next
    assume "isinstance_dict stats"
    with mem have "(team, stats) \<in> set ?keep" by simp
    then have "JStr team \<in> (\<lambda>(team, stats). JStr team) ` set ?keep"
      by (rule rev_image_eqI) simp
    with teams have "JStr team \<in> (\<lambda>rec. dict_get rec ''team'') ` set df" by simp
    then show "\<exists>rec \<in> set df. dict_get rec ''team'' = JStr team" by auto
  qed
  have ex: "df = [[(''team'', JStr ''KC''), (''year'', JInt year), (''offense_rank'', JInt 2),
                  (''pass_yards_rank'', JNull), (''pass_td_rank'', JNull),
                  (''rush_yards_rank'', JNull), (''rush_td_rank'', JNull),
                  (''rec_yards_rank'', JNull), (''rec_td_rank'', JNull),
                  (''team_td'', JNull), (''redzone_rank'', JNull), (''redzone_pct'', JNull)]]"
    if "kvs = [(''KC'', JObj [(''offense_rank'', JInt 2)]), (''BUF'', JStr ''bye'')]"
  proof -
    have "team_stats_of year [(''KC'', JObj [(''offense_rank'', JInt 2)]), (''BUF'', JStr ''bye'')]
        = Inr [[(''team'', JStr ''KC''), (''year'', JInt year), (''offense_rank'', JInt 2),
                  (''pass_yards_rank'', JNull), (''pass_td_rank'', JNull),
                  (''rush_yards_rank'', JNull), (''rush_td_rank'', JNull),
                  (''rec_yards_rank'', JNull), (''rec_td_rank'', JNull),
                  (''team_td'', JNull), (''redzone_rank'', JNull), (''redzone_pct'', JNull)]]"
      by (simp add: team_record_def dict_get_def)
    with df that show ?thesis by simp
  qed
  have all: "\<forall>(team, stats) \<in> set kvs.
      (\<exists>rec \<in> set df. dict_get rec ''team'' = JStr team) \<longleftrightarrow> isinstance_dict stats"
  proof
    fix x assume x: "x \<in> set kvs"
    obtain team stats where "x = (team, stats)" by (cases x)
    with iff [of team stats] x
    show "case x of (team, stats) \<Rightarrow>
      (\<exists>rec \<in> set df. dict_get rec ''team'' = JStr team) \<longleftrightarrow> isinstance_dict stats"
      by simp
  qed
  show ?thesis
  proof (rule exI [of _ df], rule exI [of _ df], intro conjI impI)
    show "team_stats_of year kvs = Inr df" by (rule df)
    show "map Inr df = map (\<lambda>(team, stats). team_record team year stats) ?keep" by (rule recs)
    show "fst (get_team_offensive_stats e year w) = Inr df" by (rule res)
    show "map (\<lambda>rec. dict_get rec ''team'') df = map (\<lambda>(team, stats). JStr team) ?keep"
      by (rule team_stats_of_teams [OF df])
    show "\<forall>(team, stats) \<in> set kvs.
      (\<exists>rec \<in> set df. dict_get rec ''team'' = JStr team) \<longleftrightarrow> isinstance_dict stats"
      by (rule all)
  next
    assume "kvs = [(''KC'', JObj [(''offense_rank'', JInt 2)]), (''BUF'', JStr ''bye'')]"
    then show "df = [[(''team'', JStr ''KC''), (''year'', JInt year), (''offense_rank'', JInt 2),
                  (''pass_yards_rank'', JNull), (''pass_td_rank'', JNull),
                  (''rush_yards_rank'', JNull), (''rush_td_rank'', JNull),
                  (''rec_yards_rank'', JNull), (''rec_td_rank'', JNull),
                  (''team_td'', JNull), (''redzone_rank'', JNull), (''redzone_pct'', JNull)]]"
      by (rule ex)
  qed
qed

lemma ex_teams_response:
  "http (const_env 200 (Some (JObj ex_teams))) (team_stats_url 2024)
     = Some \<lparr>status_code = 200, body = Some (JObj ex_teams)\<rparr>"
  "\<not> (400 \<le> status_code \<lparr>status_code = 200, body = Some (JObj ex_teams)\<rparr>
      \<and> status_code \<lparr>status_code = 200, body = Some (JObj ex_teams)\<rparr> < 600)"
  "body \<lparr>status_code = 200, body = Some (JObj ex_teams)\<rparr> = Some (JObj ex_teams)"
  "distinct (map fst ex_teams)"
  "writable (const_env 200 (Some (JObj ex_teams))) (team_stats_output_path 2024)"
  by (simp_all add: ex_teams_def)

theorem team_stats_mapping_entries_only_witness:
  "fst (get_team_offensive_stats (const_env 200 (Some (JObj ex_teams))) 2024 ex_world)
     = Inr [[(''team'', JStr ''KC''), (''year'', JInt 2024), (''offense_rank'', JInt 2),
             (''pass_yards_rank'', JNull), (''pass_td_rank'', JNull),
             (''rush_yards_rank'', JNull), (''rush_td_rank'', JNull),
             (''rec_yards_rank'', JNull), (''rec_td_rank'', JNull),
             (''team_td'', JNull), (''redzone_rank'', JNull), (''redzone_pct'', JNull)]]
   \<and> ex_teams = [(''KC'', JObj [(''offense_rank'', JInt 2)]), (''BUF'', JStr ''bye'')]
   \<and> isinstance_dict (snd (ex_teams ! 0)) \<and> \<not> isinstance_dict (snd (ex_teams ! 1))"
proof -
  have "ex_teams = [(''KC'', JObj [(''offense_rank'', JInt 2)]), (''BUF'', JStr ''bye'')]"
    by (simp add: ex_teams_def)
  with team_stats_mapping_entries_only [OF ex_teams_response, of ex_world]
  have "fst (get_team_offensive_stats (const_env 200 (Some (JObj ex_teams))) 2024 ex_world)
     = Inr [[(''team'', JStr ''KC''), (''year'', JInt 2024), (''offense_rank'', JInt 2),
             (''pass_yards_rank'', JNull), (''pass_td_rank'', JNull),
             (''rush_yards_rank'', JNull), (''rush_td_rank'', JNull),
             (''rec_yards_rank'', JNull), (''rec_td_rank'', JNull),
             (''team_td'', JNull), (''redzone_rank'', JNull), (''redzone_pct'', JNull)]]"
    by blast
  then show ?thesis by (simp add: ex_teams_def)
qed


text \<open>
  C5. When every entry of the player mapping is a mapping with \<open>years_exp == 0\<close> and
  a position among QB, RB, WR, TE, \<open>get_rookies\<close> returns a frame with as many rows
  as the mapping has entries, one per entry and in the same order: nothing is dropped
  and nothing is repeated.
\<close>

theorem all_eligible_same_length:
  assumes "http e rookies_url = Some r"
    and "\<not> (400 \<le> status_code r \<and> status_code r < 600)"
    and "body r = Some (JObj kvs)"
    and "writable e rookies_output_path"
    and "\<forall>(pid, player) \<in> set kvs.
           \<exists>d. player = JObj d \<and> eq_zero (dict_get d ''years_exp'')
              \<and> (\<exists>s \<in> valid_positions. dict_get d ''position'' = JStr s)"
  shows "\<exists>df. fst (get_rookies e year w) = Inr df
      \<and> length df = length kvs
      \<and> map (\<lambda>rec. dict_get rec ''player_id'') df = map (\<lambda>(pid, player). JStr pid) kvs"
proof -
  have all: "\<forall>(pid, player) \<in> set kvs. rookie_cond player = Inr True"
  proof
    fix x assume x: "x \<in> set kvs"
    obtain pid player where xp: "x = (pid, player)" by (cases x)
    with assms(5) x obtain d where "player = JObj d" "eq_zero (dict_get d ''years_exp'')"
      "\<exists>s \<in> valid_positions. dict_get d ''position'' = JStr s"
      by fastforce
    then have "rookie_cond player = Inr True" unfolding rookie_cond_True by blast
    with xp show "case x of (pid, player) \<Rightarrow> rookie_cond player = Inr True" by simp
  qed
  then have keep: "filter (\<lambda>(pid, player). rookie_cond player = Inr True) kvs = kvs"
    by (simp add: filter_id_conv)
  from rookies_of_all_eligible [OF all] obtain df where df: "rookies_of kvs = Inr df"
    and len: "length df = length kvs"
    by blast
  from get_rookies_ok [OF assms(1,2,3) df assms(4)]
  have "fst (get_rookies e year w) = Inr df" by simp
  moreover from rookies_of_ids [OF df]
  have "map (\<lambda>rec. dict_get rec ''player_id'') df = map (\<lambda>(pid, player). JStr pid) kvs"
    by (simp only: keep)
  ultimately show ?thesis using len by blast
qed

lemma ex_all_rookies_response:
  "http (const_env 200 (Some (JObj ex_all_rookies))) rookies_url
     = Some \<lparr>status_code = 200, body = Some (JObj ex_all_rookies)\<rparr>"
  "\<not> (400 \<le> status_code \<lparr>status_code = 200, body = Some (JObj ex_all_rookies)\<rparr>
      \<and> status_code \<lparr>status_code = 200, body = Some (JObj ex_all_rookies)\<rparr> < 600)"
  "body \<lparr>status_code = 200, body = Some (JObj ex_all_rookies)\<rparr> = Some (JObj ex_all_rookies)"
  "writable (const_env 200 (Some (JObj ex_all_rookies))) rookies_output_path"
  by simp_all

lemma ex_all_rookies_eligible:
  "\<forall>(pid, player) \<in> set ex_all_rookies.
     \<exists>d. player = JObj d \<and> eq_zero (dict_get d ''years_exp'')
        \<and> (\<exists>s \<in> valid_positions. dict_get d ''position'' = JStr s)"
  by (simp add: ex_all_rookies_def dict_get_def valid_positions_def)

theorem all_eligible_same_length_witness:
  "\<exists>df. fst (get_rookies (const_env 200 (Some (JObj ex_all_rookies))) 2024 ex_world) = Inr df
      \<and> length df = 3 \<and> length ex_all_rookies = 3
      \<and> map (\<lambda>rec. dict_get rec ''player_id'') df = [JStr ''2001'', JStr ''2002'', JStr ''2003'']"
proof -
  from all_eligible_same_length [OF ex_all_rookies_response ex_all_rookies_eligible, of 2024 ex_world]
  obtain df where "fst (get_rookies (const_env 200 (Some (JObj ex_all_rookies))) 2024 ex_world) = Inr df"
    "length df = length ex_all_rookies"
    "map (\<lambda>rec. dict_get rec ''player_id'') df = map (\<lambda>(pid, player). JStr pid) ex_all_rookies"
    by blast
  moreover have "length ex_all_rookies = 3"
    "map (\<lambda>(pid, player). JStr pid) ex_all_rookies = [JStr ''2001'', JStr ''2002'', JStr ''2003'']"
    by (simp_all add: ex_all_rookies_def)
  ultimately show ?thesis by simp
qed





text \<open>
  C8. For an entry that passes the rookie filter, building the six-field record
  cannot fail: the entry is a mapping, so every \<open>get\<close> on it returns a value
  (the \<open>AttributeError\<close> branch is not taken), and a field that the entry lacks,
  \<open>full_name\<close>, \<open>team\<close> or \<open>college\<close>, is null in the record.
\<close>

theorem rookie_projection_total:
  assumes "rookie_cond player = Inr True"
  shows "\<exists>d rec. player = JObj d
      \<and> rookie_record pid player = Inr rec
      \<and> map fst rec = [''player_id'', ''full_name'', ''position'', ''team'', ''college'',
                          ''years_exp'']
      \<and> (\<forall>k. get player k = Inr (dict_get d k))
      \<and> (\<forall>k \<in> {''full_name'', ''position'', ''team'', ''college'', ''years_exp''}.
            dict_get rec k = dict_get d k)
      \<and> (\<forall>k \<in> {''full_name'', ''team'', ''college''}.
            map_of d k = None \<longrightarrow> dict_get rec k = JNull)"
proof -
  from assms obtain d where d: "player = JObj d" by (auto simp: rookie_cond_True)
  let ?rec = "[(''player_id'', JStr pid),
          (''full_name'', dict_get d ''full_name''),
          (''position'', dict_get d ''position''),
          (''team'', dict_get d ''team''),
          (''college'', dict_get d ''college''),
          (''years_exp'', dict_get d ''years_exp'')]"
  have rec: "rookie_record pid player = Inr ?rec" unfolding d by (rule rookie_record_JObj)
  have keys: "map fst ?rec = [''player_id'', ''full_name'', ''position'', ''team'', ''college'',
                          ''years_exp'']"
    by simp
  have gets: "\<forall>k. get player k = Inr (dict_get d k)" by (simp add: d)
  have same: "\<forall>k \<in> {''full_name'', ''position'', ''team'', ''college'', ''years_exp''}.
            dict_get ?rec k = dict_get d k"
    by (simp add: dict_get_def)
  have absent: "\<forall>k \<in> {''full_name'', ''team'', ''college''}.
            map_of d k = None \<longrightarrow> dict_get ?rec k = JNull"
    by (simp add: dict_get_def)
  show ?thesis
  proof (rule exI [of _ d], rule exI [of _ ?rec], intro conjI)
    show "player = JObj d" by (rule d)
    show "rookie_record pid player = Inr ?rec" by (rule rec)
    show "map fst ?rec = [''player_id'', ''full_name'', ''position'', ''team'', ''college'',
                          ''years_exp'']"
      by (rule keys)
    show "\<forall>k. get player k = Inr (dict_get d k)" by (rule gets)
    show "\<forall>k \<in> {''full_name'', ''position'', ''team'', ''college'', ''years_exp''}.
            dict_get ?rec k = dict_get d k"
      by (rule same)
    show "\<forall>k \<in> {''full_name'', ''team'', ''college''}.
            map_of d k = None \<longrightarrow> dict_get ?rec k = JNull"
      by (rule absent)
  qed
qed

theorem rookie_projection_total_witness:
  "rookie_cond (JObj [(''position'', JStr ''RB''), (''years_exp'', JInt 0)]) = Inr True
   \<and> (\<exists>rec. rookie_record ''1003'' (JObj [(''position'', JStr ''RB''), (''years_exp'', JInt 0)])
                = Inr rec
        \<and> dict_get rec ''full_name'' = JNull
        \<and> dict_get rec ''team'' = JNull
        \<and> dict_get rec ''college'' = JNull)
   \<and> rookie_record ''1003'' (JObj [(''position'', JStr ''RB''), (''years_exp'', JInt 0)])
       = Inr [(''player_id'', JStr ''1003''), (''full_name'', JNull),
              (''position'', JStr ''RB''), (''team'', JNull),
              (''college'', JNull), (''years_exp'', JInt 0)]"
proof -
  let ?p = "JObj [(''position'', JStr ''RB''), (''years_exp'', JInt 0)]"
  have c: "rookie_cond ?p = Inr True"
    by (simp add: rookie_cond_def dict_get_def valid_positions_def)
  from rookie_projection_total [OF c, of "''1003''"]
  obtain d rec where p: "?p = JObj d" and rec: "rookie_record ''1003'' ?p = Inr rec"
    and absent: "\<forall>k \<in> {''full_name'', ''team'', ''college''}.
            map_of d k = None \<longrightarrow> dict_get rec k = JNull"
    by blast
  from p have d: "d = [(''position'', JStr ''RB''), (''years_exp'', JInt 0)]" by simp
  have "map_of d ''full_name'' = None" "map_of d ''team'' = None" "map_of d ''college'' = None"
    by (simp_all add: d)
  with absent have "dict_get rec ''full_name'' = JNull" "dict_get rec ''team'' = JNull"
    "dict_get rec ''college'' = JNull"
    by simp_all
  with rec have "\<exists>rec. rookie_record ''1003'' ?p = Inr rec
        \<and> dict_get rec ''full_name'' = JNull
        \<and> dict_get rec ''team'' = JNull
        \<and> dict_get rec ''college'' = JNull"
    by (intro exI [of _ rec] conjI)
  moreover have "rookie_record ''1003'' ?p
       = Inr [(''player_id'', JStr ''1003''), (''full_name'', JNull),
              (''position'', JStr ''RB''), (''team'', JNull),
              (''college'', JNull), (''years_exp'', JInt 0)]"
    by (simp add: rookie_record_def dict_get_def)
  ultimately show ?thesis using c by (intro conjI)
qed


text \<open>
  C10. An entry whose \<open>years_exp\<close> is absent or null, or whose
  \<open>position\<close> is absent, has no row in the output of \<open>get_rookies\<close>; and every
  row of the output comes from an entry whose \<open>years_exp\<close> compares equal to 0
  under Python's \<open>==\<close>, which is the integer 0, the boolean false or a float zero.
\<close>

theorem rookie_filter_missing_fields:
  assumes "http e rookies_url = Some r"
    and "body r = Some (JObj kvs)"
    and "distinct (map fst kvs)"
    and "get_rookies e year w = (Inr df, w')"
  shows "(\<forall>(pid, player) \<in> set kvs. \<forall>d. player = JObj d \<longrightarrow>
            (map_of d ''years_exp'' = None \<or> map_of d ''years_exp'' = Some JNull
               \<or> map_of d ''position'' = None) \<longrightarrow>
            JStr pid \<notin> (\<lambda>rec. dict_get rec ''player_id'') ` set df)
       \<and> (\<forall>rec \<in> set df. \<exists>pid d. (pid, JObj d) \<in> set kvs
            \<and> dict_get rec ''player_id'' = JStr pid
            \<and> (dict_get d ''years_exp'' = JInt 0 \<or> dict_get d ''years_exp'' = JBool False
               \<or> dict_get d ''years_exp'' = JFloat 0
               \<or> dict_get d ''years_exp'' = JFloat 0x8000000000000000))"
proof (intro conjI ballI)
  from get_rookies_Inr [OF assms(4)] assms(1,2) have df: "rookies_of kvs = Inr df" by auto
  {
    fix x assume x: "x \<in> set kvs"
    obtain pid player where xp: "x = (pid, player)" by (cases x)
    have "JStr pid \<notin> (\<lambda>rec. dict_get rec ''player_id'') ` set df"
      if d: "player = JObj d"
        and missing: "map_of d ''years_exp'' = None \<or> map_of d ''years_exp'' = Some JNull
               \<or> map_of d ''position'' = None"
      for d
    proof
      assume "JStr pid \<in> (\<lambda>rec. dict_get rec ''player_id'') ` set df"
      then have "JStr pid \<in> set (map (\<lambda>rec. dict_get rec ''player_id'') df)" by simp
      then have "JStr pid \<in> set (map (\<lambda>(pid, p). JStr pid)
                    (filter (\<lambda>(pid, p). rookie_cond p = Inr True) kvs))"
        by (simp only: rookies_of_ids [OF df])
      then obtain p' where p': "(pid, p') \<in> set kvs" "rookie_cond p' = Inr True" by auto
      from x xp have "(pid, player) \<in> set kvs" by simp
      from distinct_keys_same_value [OF assms(3) this p'(1)] have "p' = JObj d" by (simp add: d)
      with p'(2) rookie_cond_missing [OF missing] show False by simp
    qed
    with xp show "case x of (pid, player) \<Rightarrow> \<forall>d. player = JObj d \<longrightarrow>
            (map_of d ''years_exp'' = None \<or> map_of d ''years_exp'' = Some JNull
               \<or> map_of d ''position'' = None) \<longrightarrow>
            JStr pid \<notin> (\<lambda>rec. dict_get rec ''player_id'') ` set df"
      by simp
  next
    fix rec assume "rec \<in> set df"
    from rookies_of_member [OF df this] obtain pid d
      where mem: "(pid, JObj d) \<in> set kvs" and c: "rookie_cond (JObj d) = Inr True"
        and rec: "rookie_record pid (JObj d) = Inr rec"
      by blast
    from rec have fields: "dict_get rec ''player_id'' = JStr pid"
      by (auto simp: rookie_record_JObj dict_get_def)
    from c have "eq_zero (dict_get d ''years_exp'')" by (auto simp: rookie_cond_True)
    then have "dict_get d ''years_exp'' = JInt 0 \<or> dict_get d ''years_exp'' = JBool False
               \<or> dict_get d ''years_exp'' = JFloat 0
               \<or> dict_get d ''years_exp'' = JFloat 0x8000000000000000"
      by (simp only: eq_zero_cases)
    with mem fields show "\<exists>pid d. (pid, JObj d) \<in> set kvs
            \<and> dict_get rec ''player_id'' = JStr pid
            \<and> (dict_get d ''years_exp'' = JInt 0 \<or> dict_get d ''years_exp'' = JBool False
               \<or> dict_get d ''years_exp'' = JFloat 0
               \<or> dict_get d ''years_exp'' = JFloat 0x8000000000000000)"
      by (intro exI [of _ pid] exI [of _ d] conjI)
  }
qed

lemma get_rookies_ex_missing:
  "get_rookies (const_env 200 (Some (JObj ex_missing))) 2024 ex_world
     = (Inr ex_missing_rows, snd (get_rookies (const_env 200 (Some (JObj ex_missing))) 2024 ex_world))"
proof -
  have "rookies_of ex_missing = Inr ex_missing_rows"
    by (simp add: ex_missing_def ex_missing_rows_def rookie_cond_def rookie_record_def
        dict_get_def valid_positions_def)
  from get_rookies_ok
    [of "const_env 200 (Some (JObj ex_missing))"
        "\<lparr>status_code = 200, body = Some (JObj ex_missing)\<rparr>" ex_missing _ 2024 ex_world,
     OF _ _ _ this]
  show ?thesis by simp
qed

theorem rookie_filter_missing_fields_witness:
  "fst (get_rookies (const_env 200 (Some (JObj ex_missing))) 2024 ex_world) = Inr ex_missing_rows
   \<and> JStr ''4001'' \<notin> (\<lambda>rec. dict_get rec ''player_id'') ` set ex_missing_rows
   \<and> JStr ''4002'' \<notin> (\<lambda>rec. dict_get rec ''player_id'') ` set ex_missing_rows
   \<and> JStr ''4003'' \<notin> (\<lambda>rec. dict_get rec ''player_id'') ` set ex_missing_rows
   \<and> map (\<lambda>rec. dict_get rec ''player_id'') ex_missing_rows = [JStr ''4004'']"
proof -
  let ?e = "const_env 200 (Some (JObj ex_missing))"
  have h: "http ?e rookies_url = Some \<lparr>status_code = 200, body = Some (JObj ex_missing)\<rparr>"
    and b: "body \<lparr>status_code = 200, body = Some (JObj ex_missing)\<rparr> = Some (JObj ex_missing)"
    and dist: "distinct (map fst ex_missing)"
    by (simp_all add: ex_missing_def)
  note excl = rookie_filter_missing_fields [OF h b dist get_rookies_ex_missing, THEN conjunct1]
  have m1: "(''4001'', JObj [(''position'', JStr ''WR'')]) \<in> set ex_missing"
    and m2: "(''4002'', JObj [(''years_exp'', JNull), (''position'', JStr ''QB'')]) \<in> set ex_missing"
    and m3: "(''4003'', JObj [(''years_exp'', JInt 0)]) \<in> set ex_missing"
    by (simp_all add: ex_missing_def)
  from bspec [OF excl m1] have "JStr ''4001'' \<notin> (\<lambda>rec. dict_get rec ''player_id'') ` set ex_missing_rows"
    by simp
  moreover
  from bspec [OF excl m2] have "JStr ''4002'' \<notin> (\<lambda>rec. dict_get rec ''player_id'') ` set ex_missing_rows"
    by simp
  moreover
  from bspec [OF excl m3] have "JStr ''4003'' \<notin> (\<lambda>rec. dict_get rec ''player_id'') ` set ex_missing_rows"
    by simp
  moreover have "map (\<lambda>rec. dict_get rec ''player_id'') ex_missing_rows = [JStr ''4004'']"
    by (simp add: ex_missing_rows_def dict_get_def)
  moreover have "fst (get_rookies ?e 2024 ex_world) = Inr ex_missing_rows"
    by (subst get_rookies_ex_missing) (rule fst_conv)
  ultimately show ?thesis by (intro conjI)
qed

text \<open>
  C10, read with \<open>exactly the integer 0\<close>, does not hold: an entry whose
  \<open>years_exp\<close> is the boolean \<open>false\<close> passes the test \<open>years_exp == 0\<close>, since
  \<open>False == 0\<close> holds in Python, and the output has its row, whose \<open>years_exp\<close> is
  \<open>False\<close> and not the integer 0.
\<close>

theorem years_exp_false_counterexample:
  "ex_false_exp = [(''3001'', JObj [(''position'', JStr ''QB''), (''years_exp'', JBool False)])]
   \<and> fst (get_rookies (const_env 200 (Some (JObj ex_false_exp))) 2024 ex_world)
       = Inr [[(''player_id'', JStr ''3001''), (''full_name'', JNull),
               (''position'', JStr ''QB''), (''team'', JNull),
               (''college'', JNull), (''years_exp'', JBool False)]]
   \<and> JBool False \<noteq> JInt 0"
proof -
  have "rookies_of ex_false_exp
      = Inr [[(''player_id'', JStr ''3001''), (''full_name'', JNull),
               (''position'', JStr ''QB''), (''team'', JNull),
               (''college'', JNull), (''years_exp'', JBool False)]]"
    by (simp add: ex_false_exp_def rookie_cond_def rookie_record_def dict_get_def
        valid_positions_def)
  from get_rookies_ok
    [of "const_env 200 (Some (JObj ex_false_exp))"
        "\<lparr>status_code = 200, body = Some (JObj ex_false_exp)\<rparr>" ex_false_exp _ 2024 ex_world,
     OF _ _ _ this]
  have "fst (get_rookies (const_env 200 (Some (JObj ex_false_exp))) 2024 ex_world)
       = Inr [[(''player_id'', JStr ''3001''), (''full_name'', JNull),
               (''position'', JStr ''QB''), (''team'', JNull),
               (''college'', JNull), (''years_exp'', JBool False)]]"
    by simp
  then show ?thesis by (simp add: ex_false_exp_def)
qed

end
